theory Spec2Isabelle
  imports Complex_Main
begin

section \<open>Audio-to-video creator: data model\<close>

text \<open>
  The application is a React front end. A JavaScript \<open>number\<close> is modelled as a real
  number: every value the components compute here is a small multiple of 0.5 or a quotient
  of pixel sizes, and the properties below are about exact arithmetic, not about rounding.
  Component state (\<open>useState\<close>) is passed explicitly and returned updated.
\<close>

type_synonym number = real

subsection \<open>\<open>Date.now().toString()\<close>\<close>

definition digit :: "nat \<Rightarrow> char" where
  "digit n = ''0123456789'' ! n"

fun toString :: "nat \<Rightarrow> string" where
  "toString n = (if n < 10 then [digit n] else toString (n div 10) @ [digit (n mod 10)])"

declare toString.simps [simp del]

subsection \<open>\<open>App.tsx\<close>: assets and timeline items\<close>

datatype asset_type = Image | Video | Clipart

text \<open>One composited slide of a clip: the source image and where it was drawn.\<close>

record image_file =
  file_name :: string
  decoded :: "(nat \<times> nat) option"

record frame =
  frame_source :: image_file
  drawX :: number
  drawY :: number
  drawWidth :: number
  drawHeight :: number

text \<open>
  \<open>url\<close> and \<open>thumbnail\<close> are strings in the source: an address (of the stock library,
  or the blob URL of an edited image) or the data URL of a rendered frame of a clip.
\<close>

datatype media_url = Remote string | DataUrl frame

record visual_asset =
  asset_id :: string
  asset_type :: asset_type
  url :: media_url
  thumbnail :: media_url
  name :: string
  asset_duration :: "number option"

record timeline_item =
  item_id :: string
  asset :: visual_asset
  startTime :: number
  duration :: number
  position :: nat

text \<open>
  \<open>asset.duration || 3\<close>: the right operand is taken when the left one is falsy, that
  is when the optional field is absent and also when it is the number 0.
\<close>

definition or_default :: "number option \<Rightarrow> number \<Rightarrow> number" where
  "or_default v d = (case v of None \<Rightarrow> d | Some x \<Rightarrow> if x = 0 then d else x)"

text \<open>
  The \<open>onAssetSelect\<close> handler of \<open>App\<close>; \<open>now\<close> is the value of \<open>Date.now()\<close>.
  It returns the new value of the \<open>timelineItems\<close> state, given the current one.
\<close>

definition onAssetSelect :: "nat \<Rightarrow> visual_asset \<Rightarrow> timeline_item list \<Rightarrow> timeline_item list" where
  "onAssetSelect now a items =
     items @
       [\<lparr>item_id = toString now,
         asset = a,
         startTime = 0,
         duration = or_default (asset_duration a) 3,
         position = length items\<rparr>]"

text \<open>
  The Remove button of \<open>TimelineEditor\<close>:
  \<open>timelineItems.filter(t => t.id !== item.id)\<close>, handed to \<open>onTimelineUpdate\<close>.
\<close>

definition removeTimelineItem :: "string \<Rightarrow> timeline_item list \<Rightarrow> timeline_item list" where
  "removeTimelineItem i items = filter (\<lambda>t. item_id t \<noteq> i) items"

text \<open>
  The two ways the user changes the timeline (the source has no reorder operation), and
  the timeline a sequence of them builds from the initial state \<open>[]\<close>.
\<close>

datatype timeline_action = Select nat visual_asset | Remove string

fun timeline_step :: "timeline_item list \<Rightarrow> timeline_action \<Rightarrow> timeline_item list" where
  "timeline_step items (Select now a) = onAssetSelect now a items"
| "timeline_step items (Remove i) = removeTimelineItem i items"

definition run_actions :: "timeline_action list \<Rightarrow> timeline_item list" where
  "run_actions acts = foldl timeline_step [] acts"

text \<open>
  Notions of the specification that the source does not compute, used to state what the
  specification asks of a timeline: two placements overlap when their half-open intervals
  \<open>[start, start + duration)\<close> meet; a time is covered when some item's interval contains
  it; a time of \<open>[0, target)\<close> that no item covers lies in a gap.
\<close>

definition spec_overlaps :: "timeline_item \<Rightarrow> timeline_item \<Rightarrow> bool" where
  "spec_overlaps x y \<longleftrightarrow>
     startTime x < startTime y + duration y \<and> startTime y < startTime x + duration x"

definition spec_covered :: "timeline_item list \<Rightarrow> number \<Rightarrow> bool" where
  "spec_covered items t \<longleftrightarrow>
     list_ex (\<lambda>x. startTime x \<le> t \<and> t < startTime x + duration x) items"

definition spec_gap_at :: "timeline_item list \<Rightarrow> number \<Rightarrow> number \<Rightarrow> bool" where
  "spec_gap_at items target t \<longleftrightarrow> 0 \<le> t \<and> t < target \<and> \<not> spec_covered items t"

subsection \<open>\<open>VisualContentLibrary\<close>: the stock library\<close>

text \<open>
  The three tables of \<open>VisualContentLibrary\<close>. A click on an entry hands it to
  \<open>onAssetSelect\<close>; the only other assets that reach the handler come from
  \<open>MediaCreator\<close>, through \<open>saveEditedImage\<close> and \<open>createVideoClip\<close> below.
\<close>

text \<open>Two entries by name: the second clip-art and the first video.\<close>

definition speaker_icon :: visual_asset where
  "speaker_icon =
     \<lparr>asset_id = ''8'', asset_type = Clipart,
      url = Remote ''https://images.unsplash.com/photo-1470225620780-dba8ba36b745?w=400'',
      thumbnail = Remote ''https://images.unsplash.com/photo-1470225620780-dba8ba36b745?w=200'',
      name = ''Speaker Icon'', asset_duration = None\<rparr>"

definition abstract_motion :: visual_asset where
  "abstract_motion =
     \<lparr>asset_id = ''5'', asset_type = Video,
      url = Remote ''https://sample-videos.com/zip/10/mp4/SampleVideo_1280x720_1mb.mp4'',
      thumbnail = Remote ''https://images.unsplash.com/photo-1574375927938-d5a98e8ffe85?w=200'',
      name = ''Abstract Motion'', asset_duration = Some 10\<rparr>"

definition mockImages :: "visual_asset list" where
  "mockImages =
     [\<lparr>asset_id = ''1'', asset_type = Image,
       url = Remote ''/example-image.png'', thumbnail = Remote ''/example-image.png'',
       name = ''Gaming Character'', asset_duration = None\<rparr>,
      \<lparr>asset_id = ''2'', asset_type = Image,
       url = Remote ''https://images.unsplash.com/photo-1493225457124-a3eb161ffa5f?w=400'',
       thumbnail = Remote ''https://images.unsplash.com/photo-1493225457124-a3eb161ffa5f?w=200'',
       name = ''Abstract Music'', asset_duration = None\<rparr>,
      \<lparr>asset_id = ''3'', asset_type = Image,
       url = Remote ''https://images.unsplash.com/photo-1470225620780-dba8ba36b745?w=400'',
       thumbnail = Remote ''https://images.unsplash.com/photo-1470225620780-dba8ba36b745?w=200'',
       name = ''Music Studio'', asset_duration = None\<rparr>,
      \<lparr>asset_id = ''4'', asset_type = Image,
       url = Remote ''https://images.unsplash.com/photo-1511379938547-c1f69419868d?w=400'',
       thumbnail = Remote ''https://images.unsplash.com/photo-1511379938547-c1f69419868d?w=200'',
       name = ''Sound Waves'', asset_duration = None\<rparr>,
      \<lparr>asset_id = ''5'', asset_type = Image,
       url = Remote ''https://images.unsplash.com/photo-1574375927938-d5a98e8ffe85?w=400'',
       thumbnail = Remote ''https://images.unsplash.com/photo-1574375927938-d5a98e8ffe85?w=200'',
       name = ''Neon Lights'', asset_duration = None\<rparr>,
      \<lparr>asset_id = ''6'', asset_type = Image,
       url = Remote ''https://images.unsplash.com/photo-1518837695005-2083093ee35b?w=400'',
       thumbnail = Remote ''https://images.unsplash.com/photo-1518837695005-2083093ee35b?w=200'',
       name = ''Digital Art'', asset_duration = None\<rparr>]"

definition mockVideos :: "visual_asset list" where
  "mockVideos =
     [abstract_motion,
      \<lparr>asset_id = ''6'', asset_type = Video,
       url = Remote ''https://sample-videos.com/zip/10/mp4/SampleVideo_1280x720_2mb.mp4'',
       thumbnail = Remote ''https://images.unsplash.com/photo-1518837695005-2083093ee35b?w=200'',
       name = ''Particle Effects'', asset_duration = Some 15\<rparr>]"

definition mockClipart :: "visual_asset list" where
  "mockClipart =
     [\<lparr>asset_id = ''7'', asset_type = Clipart,
       url = Remote ''https://images.unsplash.com/photo-1493225457124-a3eb161ffa5f?w=400'',
       thumbnail = Remote ''https://images.unsplash.com/photo-1493225457124-a3eb161ffa5f?w=200'',
       name = ''Music Note'', asset_duration = None\<rparr>,
      speaker_icon]"

text \<open>
  Sample sessions: three clip-art picks; the same followed by the removal of the first
  item; two picks; two picks and a removal.
\<close>

definition three_items :: "timeline_item list" where
  "three_items = run_actions [Select 1 speaker_icon, Select 2 speaker_icon, Select 3 speaker_icon]"

definition two_left :: "timeline_item list" where
  "two_left =
     run_actions
       [Select 1 speaker_icon, Select 2 speaker_icon, Select 3 speaker_icon, Remove ''1'']"

definition two_actions :: "timeline_action list" where
  "two_actions = [Select 1 speaker_icon, Select 2 abstract_motion]"

definition sample_actions :: "timeline_action list" where
  "sample_actions = [Select 1 speaker_icon, Select 2 abstract_motion, Remove ''1'']"

text \<open>An action whose asset, if it carries a duration at all, carries a non-negative one.\<close>

definition action_duration_ok :: "timeline_action \<Rightarrow> bool" where
  "action_duration_ok act =
     (case act of
        Select now a \<Rightarrow> (case asset_duration a of None \<Rightarrow> True | Some d \<Rightarrow> 0 \<le> d)
      | Remove i \<Rightarrow> True)"

subsection \<open>\<open>ExportControls\<close>\<close>

text \<open>
  The state of the component. \<open>progressInterval\<close> is the timer started by
  \<open>setInterval\<close>: \<open>None\<close> when no timer is live, otherwise the format and quality that
  the timer's callback closed over. \<open>onExport_calls\<close> records the calls of the
  \<open>onExport\<close> property, the only thing the component hands to its surroundings.
\<close>

record export_controls =
  selectedFormat :: string
  selectedQuality :: string
  isExporting :: bool
  exportProgress :: int
  progressInterval :: "(string \<times> string) option"
  onExport_calls :: "(string \<times> string) list"

definition handleExport :: "export_controls \<Rightarrow> export_controls" where
  "handleExport s =
     s\<lparr>isExporting := True, exportProgress := 0,
       progressInterval := Some (selectedFormat s, selectedQuality s)\<rparr>"

text \<open>One firing of the timer (every 200 ms while it is live): the updater of the progress.\<close>

definition interval_fire :: "export_controls \<Rightarrow> export_controls" where
  "interval_fire s =
     (case progressInterval s of
        None \<Rightarrow> s
      | Some (format, quality) \<Rightarrow>
          if exportProgress s \<ge> 100
          then s\<lparr>progressInterval := None, isExporting := False,
                 onExport_calls := onExport_calls s @ [(format, quality)],
                 exportProgress := 100\<rparr>
          else s\<lparr>exportProgress := exportProgress s + 5\<rparr>)"

text \<open>The timer left to run until it clears itself.\<close>

function export_run :: "export_controls \<Rightarrow> export_controls" where
  "export_run s = (if progressInterval s = None then s else export_run (interval_fire s))"
  by pat_completeness auto
termination
  by (relation "measure (\<lambda>s. if progressInterval s = None then 0
                              else if exportProgress s \<ge> 100 then 1
                              else 2 + nat (100 - exportProgress s))")
    (auto simp: interval_fire_def split: option.splits)

declare export_run.simps [simp del]

text \<open>An export session: the state \<open>k\<close> firings after the Export button was pressed.\<close>

definition export_session :: "export_controls \<Rightarrow> nat \<Rightarrow> export_controls" where
  "export_session s k = (interval_fire ^^ k) (handleExport s)"

text \<open>
  The state of \<open>App\<close> that surrounds the export: the uploaded audio (its \<open>File\<close> object
  left out), the timeline and the export component. Pressing Export Video runs
  \<open>handleExport\<close> and then the timer; \<open>ExportControls\<close> receives neither the audio nor
  the timeline.
\<close>

record audio_file =
  audio_url :: string
  audio_duration :: number
  audio_name :: string

record app =
  audioFile :: "audio_file option"
  timelineItems :: "timeline_item list"
  exportControls :: export_controls

definition export_click :: "app \<Rightarrow> app" where
  "export_click a = a\<lparr>exportControls := export_run (handleExport (exportControls a))\<rparr>"

text \<open>
  A gap of the application's timeline, in the specification's sense, against the audio
  duration as target.
\<close>

definition app_gap_at :: "app \<Rightarrow> number \<Rightarrow> bool" where
  "app_gap_at a t =
     (case audioFile a of
        None \<Rightarrow> False
      | Some au \<Rightarrow> spec_gap_at (timelineItems a) (audio_duration au) t)"

text \<open>
  A sample state: five seconds of audio, three clip-art items that each cover \<open>[0, 3)\<close>,
  and the export component as first rendered.
\<close>

definition initial_controls :: export_controls where
  "initial_controls =
     \<lparr>selectedFormat = ''mp4'', selectedQuality = ''1080p'', isExporting = False,
      exportProgress = 0, progressInterval = None, onExport_calls = []\<rparr>"

definition gapped_app :: app where
  "gapped_app =
     \<lparr>audioFile = Some \<lparr>audio_url = ''blob:track'', audio_duration = 5, audio_name = ''track.mp3''\<rparr>,
      timelineItems = three_items,
      exportControls = initial_controls\<rparr>"

subsection \<open>\<open>MediaCreator\<close>: the state of the component\<close>

text \<open>
  The image editor's and the clip creator's \<open>useState\<close> cells. An imported file is known
  by its name and, when the browser can decode it, by its natural size in pixels.
\<close>

record media_creator =
  selectedImage :: "image_file option"
  editedImageUrl :: string
  brightness :: number
  contrast :: number
  saturation :: number
  selectedFilter :: string
  textOverlay :: string
  textColor :: string
  textSize :: number
  rotation :: number
  selectedImages :: "image_file list"
  clipDuration :: number
  transition :: string

subsection \<open>\<open>MediaCreator\<close>: the filter catalogue\<close>

text \<open>
  A CSS filter value is a list of filter functions, written in the source as a string such
  as \<open>sepia(50%) contrast(120%) brightness(110%)\<close>; the keyword \<open>none\<close> is the empty
  list. Percentages, pixels and degrees are kept as the numbers written. Each entry of
  \<open>imageFilters\<close> is listed under \<open>name.toLowerCase()\<close>, the form in which the Select
  offers it and \<open>find\<close> compares it.
\<close>

datatype filter_fn =
    Sepia number | Grayscale number | Blur number | Brightness number | Contrast number
  | Saturate number | HueRotate number | Invert number

type_synonym css_filter = "filter_fn list"

definition imageFilters :: "(string \<times> css_filter) list" where
  "imageFilters =
     [(''none'', []),
      (''sepia'', [Sepia 100]),
      (''grayscale'', [Grayscale 100]),
      (''blur'', [Blur 2]),
      (''brightness'', [Brightness 150]),
      (''contrast'', [Contrast 150]),
      (''saturate'', [Saturate 200]),
      (''hue rotate'', [HueRotate 90]),
      (''invert'', [Invert 100]),
      (''vintage'', [Sepia 50, Contrast 120, Brightness 110]),
      (''cool'', [HueRotate 180, Saturate 120]),
      (''warm'', [HueRotate 30, Saturate 130, Brightness 110])]"

text \<open>
  The tail of the filter string:
  \<open>selectedFilter !== 'none' ? imageFilters.find(...)?.filter || '' : ''\<close>.
\<close>

definition catalog_filter :: "string \<Rightarrow> css_filter" where
  "catalog_filter sel =
     (if sel \<noteq> ''none''
      then (case map_of imageFilters sel of Some f \<Rightarrow> f | None \<Rightarrow> [])
      else [])"

definition image_filter :: "media_creator \<Rightarrow> css_filter" where
  "image_filter st =
     [Brightness (brightness st), Contrast (contrast st), Saturate (saturation st)]
       @ catalog_filter (selectedFilter st)"

subsection \<open>\<open>MediaCreator\<close>: the 2D canvas\<close>

text \<open>
  The pixels are computed by the browser, not by the application. What the application
  decides is the sequence of calls on the drawing context, so the canvas is modelled by
  the drawing state and by the list of drawing operations issued, each with the state in
  force when it was issued. The current transformation is kept as the list of
  \<open>translate\<close> and \<open>rotate\<close> calls that built it.
\<close>

datatype transform_op = Translate number number | Rotate number

record context_state =
  ctm :: "transform_op list"
  ctx_filter :: css_filter
  fillStyle :: string
  font :: "number \<times> string"
  textAlign :: string

datatype draw_op =
    DrawImage image_file number number context_state
  | FillText string number number context_state

record canvas =
  canvas_width :: nat
  canvas_height :: nat
  ctx :: context_state
  saved :: "context_state list"
  drawn :: "draw_op list"

definition default_context :: context_state where
  "default_context =
     \<lparr>ctm = [], ctx_filter = [], fillStyle = ''#000000'', font = (10, ''sans-serif''),
      textAlign = ''start''\<rparr>"

text \<open>Assigning \<open>canvas.width\<close> and \<open>canvas.height\<close> clears the canvas and resets its context.\<close>

definition resize :: "nat \<Rightarrow> nat \<Rightarrow> canvas" where
  "resize w h =
     \<lparr>canvas_width = w, canvas_height = h, ctx = default_context, saved = [], drawn = []\<rparr>"

definition save :: "canvas \<Rightarrow> canvas" where
  "save cv = cv\<lparr>saved := ctx cv # saved cv\<rparr>"

definition restore :: "canvas \<Rightarrow> canvas" where
  "restore cv = (case saved cv of [] \<Rightarrow> cv | s # ss \<Rightarrow> cv\<lparr>ctx := s, saved := ss\<rparr>)"

definition transform :: "transform_op \<Rightarrow> canvas \<Rightarrow> canvas" where
  "transform t cv = cv\<lparr>ctx := (ctx cv)\<lparr>ctm := ctm (ctx cv) @ [t]\<rparr>\<rparr>"

definition set_filter :: "css_filter \<Rightarrow> canvas \<Rightarrow> canvas" where
  "set_filter f cv = cv\<lparr>ctx := (ctx cv)\<lparr>ctx_filter := f\<rparr>\<rparr>"

definition set_fillStyle :: "string \<Rightarrow> canvas \<Rightarrow> canvas" where
  "set_fillStyle c cv = cv\<lparr>ctx := (ctx cv)\<lparr>fillStyle := c\<rparr>\<rparr>"

definition set_font :: "number \<times> string \<Rightarrow> canvas \<Rightarrow> canvas" where
  "set_font f cv = cv\<lparr>ctx := (ctx cv)\<lparr>font := f\<rparr>\<rparr>"

definition set_textAlign :: "string \<Rightarrow> canvas \<Rightarrow> canvas" where
  "set_textAlign a cv = cv\<lparr>ctx := (ctx cv)\<lparr>textAlign := a\<rparr>\<rparr>"

definition drawImage :: "image_file \<Rightarrow> number \<Rightarrow> number \<Rightarrow> canvas \<Rightarrow> canvas" where
  "drawImage img x y cv = cv\<lparr>drawn := drawn cv @ [DrawImage img x y (ctx cv)]\<rparr>"

definition fillText :: "string \<Rightarrow> number \<Rightarrow> number \<Rightarrow> canvas \<Rightarrow> canvas" where
  "fillText txt x y cv = cv\<lparr>drawn := drawn cv @ [FillText txt x y (ctx cv)]\<rparr>"

text \<open>
  The meaning the canvas gives to a transformation: each call multiplies the current
  matrix on the right, so a point of user space goes through the calls last to first.
\<close>

fun apply_op :: "transform_op \<Rightarrow> number \<times> number \<Rightarrow> number \<times> number" where
  "apply_op (Translate tx ty) (x, y) = (x + tx, y + ty)"
| "apply_op (Rotate a) (x, y) = (x * cos a - y * sin a, x * sin a + y * cos a)"

definition apply_ctm :: "transform_op list \<Rightarrow> number \<times> number \<Rightarrow> number \<times> number" where
  "apply_ctm ops p = foldr apply_op ops p"

text \<open>
  The meaning the canvas gives to a filter list: the functions are applied in the order
  written, each to the result of the one before. What a single function does to a raster
  is the browser's business and is left open as the parameter \<open>prim\<close>.
\<close>

definition run_filter :: "(filter_fn \<Rightarrow> 'r \<Rightarrow> 'r) \<Rightarrow> css_filter \<Rightarrow> 'r \<Rightarrow> 'r" where
  "run_filter prim fs r = fold prim fs r"

subsection \<open>\<open>MediaCreator\<close>: \<open>applyImageEdits\<close>\<close>

text \<open>
  The result is the canvas that \<open>toBlob\<close> then encodes. \<open>None\<close> stands for the early
  return of the guard; an image that the browser has not decoded never reaches the
  drawing, and is given \<open>None\<close> as well.
\<close>

definition applyImageEdits :: "media_creator \<Rightarrow> canvas option" where
  "applyImageEdits st =
     (case selectedImage st of
        None \<Rightarrow> None
      | Some img \<Rightarrow>
          (case decoded img of
             None \<Rightarrow> None
           | Some (w, h) \<Rightarrow>
               let cv = resize w h;
                   cv = save cv;
                   cv = transform (Translate (real w / 2) (real h / 2)) cv;
                   cv = transform (Rotate ((rotation st * pi) / 180)) cv;
                   cv = transform (Translate (- real w / 2) (- real h / 2)) cv;
                   cv = set_filter (image_filter st) cv;
                   cv = drawImage img 0 0 cv;
                   cv = (if textOverlay st \<noteq> []
                         then
                           let cv = set_filter [] cv;
                               cv = set_fillStyle (textColor st) cv;
                               cv = set_font (textSize st, ''Arial'') cv;
                               cv = set_textAlign ''center'' cv
                           in fillText (textOverlay st) (real w / 2) (real h / 2) cv
                         else cv)
               in Some (restore cv)))"

text \<open>
  The overlay as it was issued: the last drawing operation when that is a text, and where
  on the canvas a point of the text's own coordinates is painted.
\<close>

definition overlay_op :: "media_creator \<Rightarrow> draw_op option" where
  "overlay_op st =
     (case applyImageEdits st of
        None \<Rightarrow> None
      | Some cv \<Rightarrow>
          if drawn cv = [] then None
          else (case last (drawn cv) of
                  FillText txt x y s \<Rightarrow> Some (FillText txt x y s)
                | DrawImage img x y s \<Rightarrow> None))"

definition overlay_point :: "media_creator \<Rightarrow> number \<times> number \<Rightarrow> (number \<times> number) option" where
  "overlay_point st p =
     (case overlay_op st of
        Some (FillText txt x y s) \<Rightarrow> Some (apply_ctm (ctm s) p)
      | _ \<Rightarrow> None)"

subsection \<open>\<open>MediaCreator\<close>: \<open>saveEditedImage\<close>\<close>

text \<open>
  The asset handed to \<open>onAssetCreated\<close>, or \<open>None\<close> for the early return while no edited
  image exists. \<open>selectedImage?.name || 'image'\<close> falls back on a missing file and on an
  empty name. The asset has no \<open>duration\<close> field.
\<close>

definition saveEditedImage :: "nat \<Rightarrow> media_creator \<Rightarrow> visual_asset option" where
  "saveEditedImage now st =
     (if editedImageUrl st = [] then None
      else Some
        \<lparr>asset_id = toString now,
         asset_type = Image,
         url = Remote (editedImageUrl st),
         thumbnail = Remote (editedImageUrl st),
         name = ''Edited_'' @
           (case selectedImage st of
              None \<Rightarrow> ''image''
            | Some f \<Rightarrow> if file_name f = [] then ''image'' else file_name f),
         asset_duration = None\<rparr>)"

subsection \<open>\<open>MediaCreator\<close>: \<open>createVideoClip\<close>\<close>

text \<open>The off-screen canvas of the clip creator.\<close>

definition canvas_width_px :: number where "canvas_width_px = 1920"

definition canvas_height_px :: number where "canvas_height_px = 1080"

text \<open>
  The body of \<open>img.onload\<close>: the placement of one image of natural size \<open>w\<close> by \<open>h\<close>
  on the cleared canvas.
\<close>

definition draw_frame :: "image_file \<Rightarrow> nat \<Rightarrow> nat \<Rightarrow> frame" where
  "draw_frame f w h =
     (let aspectRatio = real w / real h;
          canvasAspectRatio = canvas_width_px / canvas_height_px
      in if aspectRatio > canvasAspectRatio
         then \<lparr>frame_source = f,
               drawX = 0,
               drawY = (canvas_height_px - canvas_width_px / aspectRatio) / 2,
               drawWidth = canvas_width_px,
               drawHeight = canvas_width_px / aspectRatio\<rparr>
         else \<lparr>frame_source = f,
               drawX = (canvas_width_px - canvas_height_px * aspectRatio) / 2,
               drawY = 0,
               drawWidth = canvas_height_px * aspectRatio,
               drawHeight = canvas_height_px\<rparr>)"

text \<open>
  The loop over the selected images. Each round awaits the image's \<open>onload\<close>; for a file
  that does not decode that event never comes and the function never resumes, which is
  the value \<open>None\<close>.
\<close>

fun render_frames :: "image_file list \<Rightarrow> frame list option" where
  "render_frames [] = Some []"
| "render_frames (f # fs) =
     (case decoded f of
        None \<Rightarrow> None
      | Some (w, h) \<Rightarrow>
          (case render_frames fs of
             None \<Rightarrow> None
           | Some frames \<Rightarrow> Some (draw_frame f w h # frames)))"

text \<open>
  \<open>NoClip\<close> is the early return on an empty selection, \<open>Pending\<close> the await that never
  resumes, \<open>Created\<close> carries the asset handed to \<open>onAssetCreated\<close>; \<open>now\<close> is the value
  of \<open>Date.now()\<close>. The 2D context of the new canvas is taken to exist.
\<close>

datatype clip_outcome = NoClip | Pending | Created visual_asset

definition createVideoClip :: "nat \<Rightarrow> media_creator \<Rightarrow> clip_outcome" where
  "createVideoClip now st =
     (if length (selectedImages st) = 0 then NoClip
      else (case render_frames (selectedImages st) of
              None \<Rightarrow> Pending
            | Some frames \<Rightarrow>
                Created
                  \<lparr>asset_id = toString now,
                   asset_type = Video,
                   url = DataUrl (frames ! 0),
                   thumbnail = DataUrl (frames ! 0),
                   name = ''Clip_'' @ toString (length (selectedImages st)) @ ''_images'',
                   asset_duration = Some (real (length (selectedImages st)) * clipDuration st)\<rparr>))"

definition created_duration :: "clip_outcome \<Rightarrow> number option" where
  "created_duration out = (case out of Created a \<Rightarrow> asset_duration a | _ \<Rightarrow> None)"

text \<open>
  Sample states: a square and a wide image; an edit with a caption and a half turn; the
  same edit with the Vintage filter; a clip of three images at 3 seconds each with the
  fade transition selected.
\<close>

definition sample_photo :: image_file where
  "sample_photo = \<lparr>file_name = ''photo.png'', decoded = Some (100, 100)\<rparr>"

definition wide_photo :: image_file where
  "wide_photo = \<lparr>file_name = ''wide.png'', decoded = Some (4000, 1000)\<rparr>"

definition sample_edit :: media_creator where
  "sample_edit =
     \<lparr>selectedImage = Some sample_photo, editedImageUrl = ''blob:edited'', brightness = 100, contrast = 100, saturation = 100,
      selectedFilter = ''none'', textOverlay = ''Hi'', textColor = ''#ffffff'', textSize = 24,
      rotation = 180, selectedImages = [], clipDuration = 3, transition = ''fade''\<rparr>"


definition three_slides :: media_creator where
  "three_slides = sample_edit\<lparr>selectedImages := [sample_photo, wide_photo, sample_photo]\<rparr>"

section \<open>Properties of the timeline\<close>

subsection \<open>Auxiliary facts\<close>

lemma filter_distinct_nth:
  "distinct (map f xs) \<Longrightarrow> k < length xs \<Longrightarrow>
   filter (\<lambda>t. f t \<noteq> f (xs ! k)) xs = take k xs @ drop (Suc k) xs"
proof (induction xs arbitrary: k)
  case Nil
  then show ?case by simp
next
  case (Cons x xs)
  show ?case
  proof (cases k)
    case 0
    have "f x \<notin> f ` set xs"
      using Cons.prems(1) by simp
    then have "\<forall>t\<in>set xs. f t \<noteq> f x"
      by (metis imageI)
    then have "filter (\<lambda>t. f t \<noteq> f x) xs = xs"
      by (simp add: filter_id_conv)
    with 0 show ?thesis by simp
  next
    case (Suc j)
    with Cons.prems have j: "j < length xs" and d: "distinct (map f xs)"
      and ne: "f x \<noteq> f (xs ! j)" by auto
    from Cons.IH [OF d j] Suc ne show ?thesis by simp
  qed
qed

lemma run_actions_snoc: "run_actions (acts @ [a]) = timeline_step (run_actions acts) a"
  by (simp add: run_actions_def)

lemma startTime_reachable: "x \<in> set (run_actions acts) \<Longrightarrow> startTime x = 0"
proof (induction acts arbitrary: x rule: rev_induct)
  case Nil
  then show ?case by (simp add: run_actions_def)
next
  case (snoc a acts)
  then show ?case
    by (cases a) (auto simp: run_actions_snoc onAssetSelect_def removeTimelineItem_def)
qed

lemma or_default_pos: "(case v of None \<Rightarrow> True | Some d \<Rightarrow> 0 \<le> d) \<Longrightarrow> 0 < or_default v 3"
  by (auto simp: or_default_def split: option.splits)

lemma duration_reachable:
  "list_all action_duration_ok acts \<Longrightarrow> x \<in> set (run_actions acts) \<Longrightarrow> 0 < duration x"
proof (induction acts arbitrary: x rule: rev_induct)
  case Nil
  then show ?case by (simp add: run_actions_def)
next
  case (snoc a acts)
  show ?case
  proof (cases a)
    case (Select now v)
    with snoc.prems(1) have "0 < or_default (asset_duration v) 3"
      by (simp add: action_duration_ok_def or_default_pos)
    with snoc Select show ?thesis
      by (auto simp: run_actions_snoc onAssetSelect_def)
  next
    case (Remove i)
    with snoc show ?thesis
      by (auto simp: run_actions_snoc removeTimelineItem_def)
  qed
qed

lemma onAssetSelect_last:
  "last (onAssetSelect now a items) =
     \<lparr>item_id = toString now, asset = a, startTime = 0,
      duration = or_default (asset_duration a) 3, position = length items\<rparr>"
  by (simp add: onAssetSelect_def)

lemma sample_durations:
  "asset_duration speaker_icon = None" "asset_duration abstract_motion = Some 10"
  by (simp_all add: speaker_icon_def abstract_motion_def)

lemma three_items_eq:
  "three_items =
     [\<lparr>item_id = ''1'', asset = speaker_icon, startTime = 0, duration = 3, position = 0\<rparr>,
      \<lparr>item_id = ''2'', asset = speaker_icon, startTime = 0, duration = 3, position = 1\<rparr>,
      \<lparr>item_id = ''3'', asset = speaker_icon, startTime = 0, duration = 3, position = 2\<rparr>]"
  by (simp add: three_items_def run_actions_def onAssetSelect_def toString.simps digit_def
      or_default_def sample_durations)

lemma two_items_eq:
  "run_actions two_actions =
     [\<lparr>item_id = ''1'', asset = speaker_icon, startTime = 0, duration = 3, position = 0\<rparr>,
      \<lparr>item_id = ''2'', asset = abstract_motion, startTime = 0, duration = 10, position = 1\<rparr>]"
  by (simp add: two_actions_def run_actions_def onAssetSelect_def toString.simps digit_def
      or_default_def sample_durations)

lemma sample_actions_eq:
  "run_actions sample_actions =
     [\<lparr>item_id = ''2'', asset = abstract_motion, startTime = 0, duration = 10, position = 1\<rparr>]"
  by (simp add: sample_actions_def run_actions_def onAssetSelect_def removeTimelineItem_def
      toString.simps digit_def or_default_def sample_durations)

lemma two_left_eq:
  "two_left =
     [\<lparr>item_id = ''2'', asset = speaker_icon, startTime = 0, duration = 3, position = 1\<rparr>,
      \<lparr>item_id = ''3'', asset = speaker_icon, startTime = 0, duration = 3, position = 2\<rparr>]"
  by (simp add: two_left_def run_actions_def onAssetSelect_def removeTimelineItem_def
      toString.simps digit_def or_default_def sample_durations)

lemma stock_durations:
  "x \<in> set (mockImages @ mockVideos @ mockClipart) \<Longrightarrow> asset_duration x \<noteq> Some 0"
  by (auto simp: mockImages_def mockVideos_def mockClipart_def sample_durations)

lemma saved_duration: "saveEditedImage n st = Some a \<Longrightarrow> asset_duration a \<noteq> Some 0"
  by (auto simp: saveEditedImage_def split: if_splits)

lemma clip_duration_nonzero:
  assumes "createVideoClip n st = Created a" and "1 \<le> clipDuration st"
  shows "asset_duration a \<noteq> Some 0"
proof -
  define x where "x = real (length (selectedImages st)) * clipDuration st"
  from assms(1) have len: "selectedImages st \<noteq> []" and dur: "asset_duration a = Some x"
    by (auto simp: x_def createVideoClip_def split: if_splits option.splits)
  from len have "0 < real (length (selectedImages st))" by simp
  with assms(2) have "0 < x"
    unfolding x_def by simp
  with dur show ?thesis by simp
qed

lemma sample_decoded:
  "decoded sample_photo = Some (100, 100)" "decoded wide_photo = Some (4000, 1000)"
  by (simp_all add: sample_photo_def wide_photo_def)

lemma three_slides_simps:
  "selectedImages three_slides = [sample_photo, wide_photo, sample_photo]"
  "clipDuration three_slides = 3" "transition three_slides = ''fade''"
  by (simp_all add: three_slides_def sample_edit_def)

subsection \<open>Placement\<close>

text \<open>
  Claim C3 asks that a placement be rejected, the timeline left unchanged, unless its
  duration is positive, its start non-negative and its interval free of any existing item,
  so that no two items ever overlap. The handler has no such check. Picking the clip-art
  asset twice is accepted both times, and the two items occupy the same interval \<open>[0, 3)\<close>.
\<close>

theorem overlapping_placement_counterexample:
  "onAssetSelect 2 speaker_icon (onAssetSelect 1 speaker_icon [])
     \<noteq> onAssetSelect 1 speaker_icon []
   \<and> spec_overlaps (onAssetSelect 2 speaker_icon (onAssetSelect 1 speaker_icon []) ! 0)
       (onAssetSelect 2 speaker_icon (onAssetSelect 1 speaker_icon []) ! 1)"
  by (simp add: onAssetSelect_def spec_overlaps_def or_default_def sample_durations)

text \<open>
  Claim C3, as the code has it: a placement is never rejected. Whatever the timeline
  holds, \<open>onAssetSelect\<close> keeps every existing item and appends exactly one. As every item
  starts at 0, in a timeline built from the empty one by selections and removals, with
  assets whose durations are absent or non-negative, any two items overlap.
\<close>

theorem placement_never_rejected:
  "length (onAssetSelect now a items) = Suc (length items)
   \<and> take (length items) (onAssetSelect now a items) = items
   \<and> (list_all action_duration_ok acts \<longrightarrow>
        (\<forall>x\<in>set (run_actions acts). \<forall>y\<in>set (run_actions acts). spec_overlaps x y))"
proof -
  have "spec_overlaps x y"
    if "list_all action_duration_ok acts" "x \<in> set (run_actions acts)" "y \<in> set (run_actions acts)"
    for x y
    using that startTime_reachable [of x acts] startTime_reachable [of y acts]
      duration_reachable [of acts x] duration_reachable [of acts y]
    by (simp add: spec_overlaps_def)
  then show ?thesis
    by (simp add: onAssetSelect_def)
qed

theorem placement_never_rejected_witness:
  "list_all action_duration_ok two_actions
   \<and> run_actions two_actions \<noteq> []
   \<and> spec_overlaps (run_actions two_actions ! 0) (run_actions two_actions ! 1)"
  using placement_never_rejected [of 1 speaker_icon "[]" two_actions]
  by (simp add: two_items_eq spec_overlaps_def)
    (simp add: two_actions_def action_duration_ok_def sample_durations)

subsection \<open>Removal\<close>

text \<open>
  Claim C7 asks that removing an item renumber the \<open>position\<close> fields of the remaining
  items to 0, 1, 2, ... The Remove button only filters the list. After three picks the
  positions are 0, 1, 2; removing the first item leaves 1, 2.
\<close>

theorem remove_renumbers_counterexample:
  "map position (removeTimelineItem ''1'' three_items)
     \<noteq> [0..<length (removeTimelineItem ''1'' three_items)]"
  by (simp add: three_items_eq removeTimelineItem_def upt_conv_Cons)

text \<open>
  Claim C7, as the code has it: removal deletes the items that carry the removed id and
  nothing else; every remaining item is an item of the old timeline, with its fields as
  they were. With distinct ids, removing the item at index \<open>k\<close> leaves the other items in
  their order, and their \<open>position\<close> fields are the old ones with the \<open>k\<close>-th struck
  out, whatever they were: nothing is renumbered. In particular positions
  \<open>0 .. n - 1\<close> become \<open>0 .. k - 1, k + 1 .. n - 1\<close>.
\<close>

theorem remove_keeps_positions:
  "(\<forall>t. t \<in> set (removeTimelineItem i items) \<longleftrightarrow> t \<in> set items \<and> item_id t \<noteq> i)
   \<and> (distinct (map item_id items) \<and> k < length items \<longrightarrow>
        removeTimelineItem (item_id (items ! k)) items = take k items @ drop (Suc k) items
        \<and> map position (removeTimelineItem (item_id (items ! k)) items)
            = take k (map position items) @ drop (Suc k) (map position items)
        \<and> (map position items = [0..<length items] \<longrightarrow>
             map position (removeTimelineItem (item_id (items ! k)) items)
               = [0..<k] @ [Suc k..<length items]))"
proof -
  have general:
    "\<forall>t. t \<in> set (removeTimelineItem i items) \<longleftrightarrow> t \<in> set items \<and> item_id t \<noteq> i"
    by (simp add: removeTimelineItem_def)
  have indexed:
    "removeTimelineItem (item_id (items ! k)) items = take k items @ drop (Suc k) items
     \<and> map position (removeTimelineItem (item_id (items ! k)) items)
         = take k (map position items) @ drop (Suc k) (map position items)
     \<and> (map position items = [0..<length items] \<longrightarrow>
          map position (removeTimelineItem (item_id (items ! k)) items)
            = [0..<k] @ [Suc k..<length items])"
    if d: "distinct (map item_id items)" and k: "k < length items"
  proof -
    have eq: "removeTimelineItem (item_id (items ! k)) items = take k items @ drop (Suc k) items"
      unfolding removeTimelineItem_def using d k by (rule filter_distinct_nth)
    have pos: "map position (take k items @ drop (Suc k) items)
        = take k (map position items) @ drop (Suc k) (map position items)"
      by (simp add: take_map drop_map)
    have "take k (map position items) @ drop (Suc k) (map position items)
        = [0..<k] @ [Suc k..<length items]"
      if "map position items = [0..<length items]"
      using k by (simp add: that)
    with eq pos show ?thesis by simp
  qed
  from general indexed show ?thesis by blast
qed

theorem remove_keeps_positions_witness:
  "distinct (map item_id two_left) \<and> 0 < length two_left
   \<and> map position two_left = [1, 2]
   \<and> map position (removeTimelineItem (item_id (two_left ! 0)) two_left) = [2]
   \<and> distinct (map item_id three_items) \<and> 1 < length three_items
   \<and> map position three_items = [0..<length three_items]
   \<and> map position (removeTimelineItem (item_id (three_items ! 1)) three_items) = [0, 2]"
  using remove_keeps_positions [of "''9''" two_left 0]
    remove_keeps_positions [of "''9''" three_items 1]
  by (simp add: two_left_eq three_items_eq upt_conv_Cons)

subsection \<open>Fields of a new item\<close>

text \<open>
  Claim C10: every item added to the timeline starts at 0, has the asset's intrinsic
  duration when the asset has one and 3 seconds otherwise, and has the number of items
  already present as its position; removal returns items of the old timeline only, so
  every item of a timeline built from the empty one by selections and removals starts
  at 0. The assets added are those the application hands to \<open>onAssetSelect\<close>: an entry of
  the stock library, an edited image, or a clip made with the duration slider in its
  range from 1 to 10. (The handler writes \<open>asset.duration || 3\<close>; none of these assets
  has the duration 0 that the operator would replace.)
\<close>

theorem added_item_fields:
  assumes "a \<in> set (mockImages @ mockVideos @ mockClipart)
     \<or> saveEditedImage n st = Some a
     \<or> (createVideoClip n st = Created a \<and> 1 \<le> clipDuration st \<and> clipDuration st \<le> 10)"
  shows "onAssetSelect now a items = items @ [last (onAssetSelect now a items)]
   \<and> startTime (last (onAssetSelect now a items)) = 0
   \<and> position (last (onAssetSelect now a items)) = length items
   \<and> (\<forall>d. asset_duration a = Some d \<longrightarrow> duration (last (onAssetSelect now a items)) = d)
   \<and> (asset_duration a = None \<longrightarrow> duration (last (onAssetSelect now a items)) = 3)
   \<and> (\<forall>t\<in>set (removeTimelineItem i items). t \<in> set items)
   \<and> (\<forall>t\<in>set (run_actions acts). startTime t = 0)"
proof -
  have nonzero: "asset_duration a \<noteq> Some 0"
    using assms stock_durations saved_duration [of n st a] clip_duration_nonzero [of n st a]
    by auto
  have "onAssetSelect now a items = items @ [last (onAssetSelect now a items)]"
    by (simp add: onAssetSelect_def)
  moreover have "\<forall>t\<in>set (removeTimelineItem i items). t \<in> set items"
    by (simp add: removeTimelineItem_def)
  moreover have "\<forall>t\<in>set (run_actions acts). startTime t = 0"
    by (simp add: startTime_reachable)
  moreover have "\<forall>d. asset_duration a = Some d \<longrightarrow> duration (last (onAssetSelect now a items)) = d"
    using nonzero by (auto simp: onAssetSelect_last or_default_def)
  ultimately show ?thesis
    by (simp add: onAssetSelect_last or_default_def)
qed

theorem added_item_fields_witness:
  "abstract_motion \<in> set (mockImages @ mockVideos @ mockClipart)
   \<and> asset_duration abstract_motion = Some 10
   \<and> duration (last (onAssetSelect 4 abstract_motion three_items)) = 10
   \<and> speaker_icon \<in> set (mockImages @ mockVideos @ mockClipart)
   \<and> asset_duration speaker_icon = None
   \<and> duration (last (onAssetSelect 4 speaker_icon three_items)) = 3
   \<and> position (last (onAssetSelect 4 abstract_motion three_items)) = 3
   \<and> startTime (last (onAssetSelect 4 abstract_motion three_items)) = 0
   \<and> (\<exists>c. createVideoClip 1 three_slides = Created c
         \<and> asset_duration c = Some 9
         \<and> duration (last (onAssetSelect 4 c three_items)) = 9)
   \<and> removeTimelineItem ''2'' three_items \<noteq> []
   \<and> run_actions sample_actions \<noteq> []
   \<and> list_all (\<lambda>t. startTime t = 0) (run_actions sample_actions)"
proof -
  have stock: "abstract_motion \<in> set (mockImages @ mockVideos @ mockClipart)"
    "speaker_icon \<in> set (mockImages @ mockVideos @ mockClipart)"
    by (simp_all add: mockVideos_def mockClipart_def)
  obtain c where c: "createVideoClip 1 three_slides = Created c" "asset_duration c = Some 9"
    by (simp add: createVideoClip_def three_slides_simps sample_decoded)
  have slider: "1 \<le> clipDuration three_slides \<and> clipDuration three_slides \<le> 10"
    by (simp add: three_slides_simps)
  have m: "duration (last (onAssetSelect 4 abstract_motion three_items)) = 10"
    "position (last (onAssetSelect 4 abstract_motion three_items)) = 3"
    "startTime (last (onAssetSelect 4 abstract_motion three_items)) = 0"
    "list_all (\<lambda>t. startTime t = 0) (run_actions sample_actions)"
    using added_item_fields [OF disjI1, OF stock(1), where now = 4 and items = three_items
        and i = "''2''" and acts = sample_actions]
    by (simp_all add: sample_durations three_items_eq list_all_iff)
  have s: "duration (last (onAssetSelect 4 speaker_icon three_items)) = 3"
    using added_item_fields [OF disjI1, OF stock(2), where now = 4 and items = three_items]
    by (simp add: sample_durations)
  from c(1) slider
  have "createVideoClip 1 three_slides = Created c
      \<and> 1 \<le> clipDuration three_slides \<and> clipDuration three_slides \<le> 10"
    by simp
  from added_item_fields [OF disjI2, OF disjI2, OF this, where now = 4 and items = three_items]
  have "duration (last (onAssetSelect 4 c three_items)) = 9"
    using c(2) by simp
  with c have "\<exists>c. createVideoClip 1 three_slides = Created c
         \<and> asset_duration c = Some 9
         \<and> duration (last (onAssetSelect 4 c three_items)) = 9"
    by blast
  with stock m s show ?thesis
    by (simp add: sample_durations sample_actions_eq three_items_eq removeTimelineItem_def)
qed

section \<open>Properties of the export\<close>

subsection \<open>Auxiliary facts\<close>

lemma export_run_live:
  "progressInterval s = Some (f, q) \<Longrightarrow>
   export_run s = s\<lparr>progressInterval := None, isExporting := False,
                    onExport_calls := onExport_calls s @ [(f, q)], exportProgress := 100\<rparr>"
proof (induction s rule: export_run.induct)
  case (1 s)
  let ?done = "s\<lparr>progressInterval := None, isExporting := False,
                 onExport_calls := onExport_calls s @ [(f, q)], exportProgress := 100\<rparr>"
  show ?case
  proof (cases "exportProgress s \<ge> 100")
    case True
    with "1.prems" have "interval_fire s = ?done"
      by (simp add: interval_fire_def)
    with "1.prems" show ?thesis
      by (simp add: export_run.simps [of s] export_run.simps [of ?done])
  next
    case False
    with "1.prems" have fire: "interval_fire s = s\<lparr>exportProgress := exportProgress s + 5\<rparr>"
      by (simp add: interval_fire_def)
    have "export_run (interval_fire s) =
        (interval_fire s)\<lparr>progressInterval := None, isExporting := False,
          onExport_calls := onExport_calls (interval_fire s) @ [(f, q)], exportProgress := 100\<rparr>"
      using "1.prems" by (intro "1.IH") (simp_all add: fire)
    with "1.prems" show ?thesis
      by (simp add: export_run.simps [of s] fire)
  qed
qed

lemma export_run_handleExport:
  "export_run (handleExport s) =
     s\<lparr>isExporting := False, exportProgress := 100, progressInterval := None,
       onExport_calls := onExport_calls s @ [(selectedFormat s, selectedQuality s)]\<rparr>"
  by (simp add: export_run_live [of _ "selectedFormat s" "selectedQuality s"] handleExport_def)

lemma export_session_Suc: "export_session s (Suc k) = interval_fire (export_session s k)"
  by (simp add: export_session_def)

lemma export_session_early:
  "k \<le> 20 \<Longrightarrow> export_session s k =
     s\<lparr>isExporting := True, exportProgress := 5 * int k,
       progressInterval := Some (selectedFormat s, selectedQuality s)\<rparr>"
proof (induction k)
  case 0
  then show ?case by (simp add: export_session_def handleExport_def)
next
  case (Suc k)
  then show ?case
    by (simp add: export_session_Suc interval_fire_def)
qed

lemma export_session_late:
  "20 < k \<Longrightarrow> export_session s k =
     s\<lparr>isExporting := False, exportProgress := 100, progressInterval := None,
       onExport_calls := onExport_calls s @ [(selectedFormat s, selectedQuality s)]\<rparr>"
proof (induction k)
  case 0
  then show ?case by simp
next
  case (Suc k)
  show ?case
  proof (cases "k = 20")
    case True
    have "export_session s (Suc k) = interval_fire (export_session s 20)"
      unfolding True by (rule export_session_Suc)
    then show ?thesis
      by (simp add: export_session_early [of 20] interval_fire_def)
  next
    case False
    with Suc show ?thesis
      by (simp add: export_session_Suc interval_fire_def)
  qed
qed

lemma export_session_progress: "exportProgress (export_session s k) = min (5 * int k) 100"
  by (cases "k \<le> 20") (simp_all add: export_session_early export_session_late)

lemma export_session_isExporting: "isExporting (export_session s k) \<longleftrightarrow> k \<le> 20"
  by (cases "k \<le> 20") (simp_all add: export_session_early export_session_late)

lemma export_session_calls:
  "onExport_calls (export_session s k) =
     onExport_calls s @ (if k \<le> 20 then [] else [(selectedFormat s, selectedQuality s)])"
  by (cases "k \<le> 20") (simp_all add: export_session_early export_session_late)

lemma three_items_gap: "spec_gap_at three_items 5 4"
  by (simp add: spec_gap_at_def spec_covered_def three_items_eq)

subsection \<open>Export of a timeline with a gap\<close>

text \<open>
  Claim C2 asks that exporting a timeline with a gap fail with \<open>IncompleteTimeline\<close>
  before any frame work, without reaching the encoder. In the sample state the timeline
  covers \<open>[0, 3)\<close> of five seconds of audio, so time 4 lies in a gap; pressing Export
  Video nevertheless runs to 100 and calls \<open>onExport\<close> with the chosen format and quality.
\<close>

theorem gapped_export_counterexample:
  "app_gap_at gapped_app 4
   \<and> onExport_calls (exportControls (export_click gapped_app)) = [(''mp4'', ''1080p'')]
   \<and> exportProgress (exportControls (export_click gapped_app)) = 100"
  by (simp add: app_gap_at_def gapped_app_def three_items_gap export_click_def
      export_run_handleExport initial_controls_def)

text \<open>
  Claim C2, as the code has it: the export never looks at the timeline and has no failure.
  For every state of the application, pressing Export Video ends with the progress at 100,
  the timer cleared, and exactly one more call of \<open>onExport\<close> with the selected format and
  quality; the timeline is left as it was, and replacing it by any other changes nothing
  in the outcome of the export. (The Export button is not rendered while an export runs,
  so no second timer is started during a session.)
\<close>

theorem export_ignores_timeline:
  "exportControls (export_click a) =
     (exportControls a)
       \<lparr>isExporting := False, exportProgress := 100, progressInterval := None,
        onExport_calls := onExport_calls (exportControls a)
          @ [(selectedFormat (exportControls a), selectedQuality (exportControls a))]\<rparr>
   \<and> timelineItems (export_click a) = timelineItems a
   \<and> export_click (a\<lparr>timelineItems := items\<rparr>) = (export_click a)\<lparr>timelineItems := items\<rparr>"
proof -
  let ?c = "exportControls a"
  have run: "export_run (handleExport ?c) =
      ?c\<lparr>isExporting := False, exportProgress := 100, progressInterval := None,
         onExport_calls := onExport_calls ?c @ [(selectedFormat ?c, selectedQuality ?c)]\<rparr>"
    by (rule export_run_handleExport)
  have "exportControls (export_click a) = export_run (handleExport ?c)"
    by (simp add: export_click_def)
  moreover have "timelineItems (export_click a) = timelineItems a"
    by (simp add: export_click_def)
  moreover have
    "export_click (a\<lparr>timelineItems := items\<rparr>) = (export_click a)\<lparr>timelineItems := items\<rparr>"
    by (simp add: export_click_def)
  ultimately show ?thesis
    using run by simp
qed

subsection \<open>Progress of an export session\<close>

text \<open>
  Claim C8 says that the export completes, \<open>onExport\<close> firing, exactly when the progress
  reaches 100. It completes one firing of the timer later. From the component as first
  rendered, the twentieth firing takes the progress from 95 to 100; after it the export is
  still running and \<open>onExport\<close> has not been called.
\<close>

theorem export_completion_counterexample:
  "exportProgress (export_session initial_controls 19) = 95
   \<and> exportProgress (export_session initial_controls 20) = 100
   \<and> isExporting (export_session initial_controls 20)
   \<and> onExport_calls (export_session initial_controls 20) = []"
  by (simp add: export_session_early initial_controls_def)

text \<open>
  Claim C8, as the code has it: in every export session the progress values never
  decrease and lie between 0 and 100. Here \<open>export_session s k\<close> is the state after \<open>k\<close>
  firings of the timer. A firing calls \<open>onExport\<close> exactly if the session is still running
  and the progress it finds is already 100; the session is still running after a firing
  exactly if the progress it found was below 100. The firing that brings the progress to
  100 is the twentieth and calls nothing; the one firing that calls \<open>onExport\<close> is the
  twenty-first, which publishes 100 once more and hands over the format and quality
  chosen when the export was started. \<open>onExport\<close> is called at most once, and after 21
  firings the session is complete.
\<close>

theorem export_progress_session:
  "exportProgress (export_session s k) \<le> exportProgress (export_session s (Suc k))
   \<and> 0 \<le> exportProgress (export_session s k)
   \<and> exportProgress (export_session s k) \<le> 100
   \<and> (onExport_calls (export_session s (Suc k)) \<noteq> onExport_calls (export_session s k)
        \<longleftrightarrow> isExporting (export_session s k) \<and> exportProgress (export_session s k) = 100)
   \<and> (isExporting (export_session s (Suc k)) \<longleftrightarrow> exportProgress (export_session s k) < 100)
   \<and> length (onExport_calls (export_session s k)) \<le> Suc (length (onExport_calls s))
   \<and> export_session s 21 = export_run (handleExport s)
   \<and> (exportProgress (export_session s k) < 100
        \<and> exportProgress (export_session s (Suc k)) = 100 \<longrightarrow>
          k = 19 \<and> isExporting (export_session s (Suc k))
          \<and> onExport_calls (export_session s (Suc k)) = onExport_calls s)
   \<and> (onExport_calls (export_session s (Suc k)) \<noteq> onExport_calls (export_session s k) \<longrightarrow>
          k = 20
          \<and> onExport_calls (export_session s (Suc k))
              = onExport_calls s @ [(selectedFormat s, selectedQuality s)]
          \<and> exportProgress (export_session s (Suc k)) = 100)"
proof -
  have "export_session s 21 = export_run (handleExport s)"
    by (simp add: export_session_late export_run_handleExport)
  moreover have
    "onExport_calls (export_session s (Suc k)) \<noteq> onExport_calls (export_session s k)
       \<longleftrightarrow> isExporting (export_session s k) \<and> exportProgress (export_session s k) = 100"
    by (simp add: export_session_calls export_session_isExporting export_session_progress)
  moreover have
    "isExporting (export_session s (Suc k)) \<longleftrightarrow> exportProgress (export_session s k) < 100"
    by (simp add: export_session_isExporting export_session_progress) arith
  moreover have "k = 19 \<and> isExporting (export_session s (Suc k))
          \<and> onExport_calls (export_session s (Suc k)) = onExport_calls s"
    if "exportProgress (export_session s k) < 100"
      "exportProgress (export_session s (Suc k)) = 100"
  proof -
    from that have "k = 19"
      by (simp add: export_session_progress min_def split: if_splits)
    then show ?thesis
      by (simp add: export_session_isExporting export_session_calls)
  qed
  moreover have "k = 20
          \<and> onExport_calls (export_session s (Suc k))
              = onExport_calls s @ [(selectedFormat s, selectedQuality s)]
          \<and> exportProgress (export_session s (Suc k)) = 100"
    if "onExport_calls (export_session s (Suc k)) \<noteq> onExport_calls (export_session s k)"
  proof -
    from that have "k = 20"
      by (simp add: export_session_calls split: if_splits)
    then show ?thesis
      by (simp add: export_session_calls export_session_progress)
  qed
  moreover have "exportProgress (export_session s k) \<le> exportProgress (export_session s (Suc k))"
    by (simp add: export_session_progress)
  moreover have "0 \<le> exportProgress (export_session s k)"
    and "exportProgress (export_session s k) \<le> 100"
    by (simp_all add: export_session_progress)
  moreover have "length (onExport_calls (export_session s k)) \<le> Suc (length (onExport_calls s))"
    by (simp add: export_session_calls)
  ultimately show ?thesis
    by blast
qed

theorem export_progress_session_witness:
  "exportProgress (export_session initial_controls 20) = 100
   \<and> isExporting (export_session initial_controls 20)
   \<and> onExport_calls (export_session initial_controls 20) = []
   \<and> onExport_calls (export_session initial_controls 21) = [(''mp4'', ''1080p'')]
   \<and> \<not> isExporting (export_session initial_controls 21)"
  using export_progress_session [of initial_controls 20]
  by (simp add: export_session_early export_session_late export_run_handleExport
      initial_controls_def)

section \<open>Properties of the media creator\<close>

subsection \<open>Auxiliary facts\<close>

lemma applyImageEdits_text:
  assumes "selectedImage st = Some img" "decoded img = Some (w, h)" "textOverlay st \<noteq> []"
  shows "applyImageEdits st =
    Some \<lparr>canvas_width = w, canvas_height = h, ctx = default_context, saved = [],
      drawn =
        [DrawImage img 0 0
           (default_context
              \<lparr>ctm := [Translate (real w / 2) (real h / 2), Rotate ((rotation st * pi) / 180),
                       Translate (- real w / 2) (- real h / 2)],
               ctx_filter := image_filter st\<rparr>),
         FillText (textOverlay st) (real w / 2) (real h / 2)
           \<lparr>ctm = [Translate (real w / 2) (real h / 2), Rotate ((rotation st * pi) / 180),
                       Translate (- real w / 2) (- real h / 2)],
            ctx_filter = [], fillStyle = textColor st, font = (textSize st, ''Arial''),
            textAlign = ''center''\<rparr>]\<rparr>"
  using assms
  by (simp add: applyImageEdits_def resize_def save_def restore_def transform_def
      set_filter_def set_fillStyle_def set_font_def set_textAlign_def drawImage_def fillText_def
      default_context_def)

lemma applyImageEdits_plain:
  assumes "selectedImage st = Some img" "decoded img = Some (w, h)" "textOverlay st = []"
  shows "applyImageEdits st =
    Some \<lparr>canvas_width = w, canvas_height = h, ctx = default_context, saved = [],
      drawn =
        [DrawImage img 0 0
           (default_context
              \<lparr>ctm := [Translate (real w / 2) (real h / 2), Rotate ((rotation st * pi) / 180),
                       Translate (- real w / 2) (- real h / 2)],
               ctx_filter := image_filter st\<rparr>)]\<rparr>"
  using assms
  by (simp add: applyImageEdits_def resize_def save_def restore_def transform_def
      set_filter_def drawImage_def default_context_def)

lemma run_filter_append: "run_filter prim (fs @ gs) r = run_filter prim gs (run_filter prim fs r)"
  by (simp add: run_filter_def)

lemma sample_edit_simps:
  "selectedImage sample_edit = Some sample_photo" "textOverlay sample_edit = ''Hi''"
  "rotation sample_edit = 180" "brightness sample_edit = 100" "contrast sample_edit = 100"
  "saturation sample_edit = 100" "selectedFilter sample_edit = ''none''"
  "textColor sample_edit = ''#ffffff''" "textSize sample_edit = 24"
  by (simp_all add: sample_edit_def)

lemma render_frames_decoded:
  "list_all (\<lambda>f. decoded f \<noteq> None) fs \<Longrightarrow> \<exists>frames. render_frames fs = Some frames"
  by (induction fs) (auto split: option.splits)

lemma render_frames_nth:
  "render_frames fs = Some frames \<Longrightarrow>
   length frames = length fs
   \<and> (\<forall>i<length fs. \<exists>w h. decoded (fs ! i) = Some (w, h)
          \<and> frames ! i = draw_frame (fs ! i) w h)"
proof (induction fs arbitrary: frames)
  case Nil
  then show ?case by simp
next
  case (Cons f fs)
  from Cons.prems obtain w h rest where f: "decoded f = Some (w, h)"
    and rest: "render_frames fs = Some rest" and frames: "frames = draw_frame f w h # rest"
    by (auto split: option.splits)
  from Cons.IH [OF rest] have len: "length rest = length fs"
    and nth: "\<forall>i<length fs. \<exists>w h. decoded (fs ! i) = Some (w, h)
          \<and> rest ! i = draw_frame (fs ! i) w h"
    by simp_all
  have "\<exists>w h. decoded ((f # fs) ! i) = Some (w, h)
          \<and> frames ! i = draw_frame ((f # fs) ! i) w h" if "i < length (f # fs)" for i
  proof (cases i)
    case 0
    with f frames show ?thesis by simp
  next
    case (Suc j)
    with that nth frames show ?thesis by simp
  qed
  with len frames show ?case by simp
qed

lemma createVideoClip_url:
  assumes "createVideoClip now st = Created a"
  shows "\<exists>w h. decoded (selectedImages st ! 0) = Some (w, h)
    \<and> url a = DataUrl (draw_frame (selectedImages st ! 0) w h)
    \<and> thumbnail a = url a"
proof -
  from assms obtain frames where ne: "selectedImages st \<noteq> []"
    and fr: "render_frames (selectedImages st) = Some frames"
    and u: "url a = DataUrl (frames ! 0)" "thumbnail a = DataUrl (frames ! 0)"
    by (auto simp: createVideoClip_def split: if_splits option.splits)
  from ne have "0 < length (selectedImages st)" by simp
  with render_frames_nth [OF fr]
  obtain w h where "decoded (selectedImages st ! 0) = Some (w, h)"
    "frames ! 0 = draw_frame (selectedImages st ! 0) w h"
    by blast
  with u show ?thesis by simp
qed

subsection \<open>Order of the colour stages\<close>



subsection \<open>The text overlay\<close>

text \<open>
  Claim C5 says that the overlay is unaffected by the rotation. The text is drawn
  before \<open>ctx.restore()\<close>, while the rotation about the canvas centre is still in force.
  On a 100 by 100 image turned by 180 degrees, the point of the text's coordinates ten
  pixels to the right of the anchor, \<open>(60, 50)\<close>, is painted at \<open>(40, 50)\<close>; with the
  rotation at 0 and nothing else changed it is painted at \<open>(60, 50)\<close>.
\<close>

theorem overlay_rotation_counterexample:
  "overlay_point sample_edit (60, 50) = Some (40, 50)
   \<and> overlay_point (sample_edit\<lparr>rotation := 0\<rparr>) (60, 50) = Some (60, 50)"
  by (simp add: overlay_point_def overlay_op_def apply_ctm_def
      applyImageEdits_text [of _ sample_photo 100 100] sample_edit_simps sample_decoded)

text \<open>
  Claim C5, as the code has it: with a non-empty overlay the canvas receives exactly two
  drawing operations, the image and then the text. The text is issued with the filter
  reset to \<open>none\<close>, in the chosen colour, at the chosen pixel size in Arial, centred on
  the anchor, which is the canvas centre; it is issued under the same transformation as
  the image, the rotation about the canvas centre, which leaves the anchor where it is.
  Brightness, contrast, saturation and the selected filter have no influence on it.
\<close>

theorem overlay_final_pass:
  assumes "selectedImage st = Some img" and "decoded img = Some (w, h)"
    and "textOverlay st \<noteq> []"
  shows "\<exists>cv si. applyImageEdits st = Some cv
    \<and> drawn cv =
        [DrawImage img 0 0 si,
         FillText (textOverlay st) (real w / 2) (real h / 2)
           \<lparr>ctm = ctm si, ctx_filter = [], fillStyle = textColor st,
            font = (textSize st, ''Arial''), textAlign = ''center''\<rparr>]
    \<and> ctm si = [Translate (real w / 2) (real h / 2), Rotate ((rotation st * pi) / 180),
                Translate (- real w / 2) (- real h / 2)]
    \<and> apply_ctm (ctm si) (real w / 2, real h / 2) = (real w / 2, real h / 2)
    \<and> overlay_op (st\<lparr>brightness := b, contrast := c, saturation := s, selectedFilter := sel\<rparr>)
        = overlay_op st"
proof -
  let ?st' = "st\<lparr>brightness := b, contrast := c, saturation := s, selectedFilter := sel\<rparr>"
  have "selectedImage ?st' = Some img" "textOverlay ?st' \<noteq> []"
    using assms by simp_all
  then have "overlay_op ?st' = overlay_op st"
    by (simp add: overlay_op_def applyImageEdits_text [OF _ assms(2)] assms)
  then show ?thesis
    by (simp add: applyImageEdits_text [OF assms] apply_ctm_def)
qed

theorem overlay_final_pass_witness:
  "selectedImage sample_edit = Some sample_photo
   \<and> decoded sample_photo = Some (100, 100)
   \<and> textOverlay sample_edit \<noteq> []
   \<and> overlay_op sample_edit =
       Some (FillText ''Hi'' 50 50
         \<lparr>ctm = [Translate 50 50, Rotate pi, Translate (- 50) (- 50)], ctx_filter = [],
          fillStyle = ''#ffffff'', font = (24, ''Arial''), textAlign = ''center''\<rparr>)
   \<and> overlay_op (sample_edit\<lparr>brightness := 150, contrast := 50, saturation := 0,
        selectedFilter := ''sepia''\<rparr>) = overlay_op sample_edit"
  using overlay_final_pass [where st = sample_edit and img = sample_photo and w = 100 and h = 100
      and b = 150 and c = 50 and s = 0 and sel = "''sepia''"]
  by (simp add: overlay_op_def applyImageEdits_text [of _ sample_photo 100 100]
      sample_edit_simps sample_decoded)

subsection \<open>Duration of a clip\<close>

text \<open>
  Claim C1 asks that a clip of \<open>n\<close> images at \<open>d\<close> seconds each last
  \<open>n * d - (n - 1) * 0.5\<close> seconds, 8 seconds for three images at 3 seconds with
  the fade transition. The asset is created with \<open>selectedImages.length * clipDuration\<close>:
  9 seconds.
\<close>

theorem clip_duration_counterexample:
  "length (selectedImages three_slides) = 3
   \<and> clipDuration three_slides = 3
   \<and> transition three_slides = ''fade''
   \<and> created_duration (createVideoClip 1 three_slides) = Some 9
   \<and> created_duration (createVideoClip 1 three_slides) \<noteq> Some (3 * 3 - (3 - 1) * (1 / 2))"
  by (simp add: three_slides_simps sample_decoded created_duration_def createVideoClip_def)

text \<open>
  Claim C1, as the code has it: every clip asset that is created comes from a non-empty
  selection and its duration is the number of images times the duration per image. The
  selected transition plays no part: with any other transition the same asset results.
  A non-empty selection of images that all decode does yield a clip.
\<close>

theorem clip_duration_is_product:
  "(createVideoClip now st = Created a \<longrightarrow>
      selectedImages st \<noteq> []
      \<and> asset_duration a = Some (real (length (selectedImages st)) * clipDuration st)
      \<and> createVideoClip now (st\<lparr>transition := tr\<rparr>) = Created a)
   \<and> (selectedImages st \<noteq> [] \<and> list_all (\<lambda>f. decoded f \<noteq> None) (selectedImages st) \<longrightarrow>
        (\<exists>c. createVideoClip now st = Created c))"
proof -
  have "\<exists>c. createVideoClip now st = Created c"
    if "selectedImages st \<noteq> []" "list_all (\<lambda>f. decoded f \<noteq> None) (selectedImages st)"
  proof -
    from that(2) obtain frames where "render_frames (selectedImages st) = Some frames"
      using render_frames_decoded by blast
    with that(1) show ?thesis
      by (simp add: createVideoClip_def)
  qed
  moreover have "selectedImages st \<noteq> []
      \<and> asset_duration a = Some (real (length (selectedImages st)) * clipDuration st)
      \<and> createVideoClip now (st\<lparr>transition := tr\<rparr>) = Created a"
    if "createVideoClip now st = Created a"
    using that by (auto simp: createVideoClip_def split: if_splits option.splits)
  ultimately show ?thesis by blast
qed

theorem clip_duration_is_product_witness:
  "selectedImages three_slides \<noteq> []
   \<and> list_all (\<lambda>f. decoded f \<noteq> None) (selectedImages three_slides)
   \<and> created_duration (createVideoClip 1 three_slides) = Some 9
   \<and> created_duration (createVideoClip 1 (three_slides\<lparr>transition := ''zoom-in''\<rparr>)) = Some 9"
proof -
  have sel: "selectedImages three_slides \<noteq> []
      \<and> list_all (\<lambda>f. decoded f \<noteq> None) (selectedImages three_slides)"
    by (simp add: three_slides_simps sample_decoded)
  with clip_duration_is_product [of 1 three_slides]
  obtain c where c: "createVideoClip 1 three_slides = Created c"
    by blast
  with clip_duration_is_product [of 1 three_slides c "''zoom-in''"]
  have "asset_duration c
      = Some (real (length (selectedImages three_slides)) * clipDuration three_slides)"
    and "createVideoClip 1 (three_slides\<lparr>transition := ''zoom-in''\<rparr>) = Created c"
    by simp_all
  with c sel show ?thesis
    by (simp add: created_duration_def three_slides_simps)
qed

subsection \<open>Fitting an image to the canvas\<close>

text \<open>
  Claim C9: an image of width \<open>w\<close> and height \<open>h\<close> is scaled into the 1920 by 1080
  canvas with its aspect ratio \<open>w / h\<close> kept, and centred. If \<open>w / h\<close> exceeds the
  canvas ratio the drawn width is the canvas width, the drawn height is smaller than the
  canvas height and the image is centred vertically; otherwise the drawn height is the
  canvas height, the drawn width does not exceed the canvas width and the image is centred
  horizontally. The clip creator has no transitions, so every frame is drawn this way:
  for a selection of any length, the frame at each index is this placement of the image
  at that index, and the clip asset carries the placement of the first image.
\<close>

theorem letterbox_fit:
  assumes "0 < w" and "0 < h"
  shows "render_frames [f\<lparr>decoded := Some (w, h)\<rparr>]
      = Some [draw_frame (f\<lparr>decoded := Some (w, h)\<rparr>) w h]
    \<and> drawWidth (draw_frame g w h) / drawHeight (draw_frame g w h) = real w / real h
    \<and> 0 < drawWidth (draw_frame g w h) \<and> 0 < drawHeight (draw_frame g w h)
    \<and> (real w / real h > 1920 / 1080 \<longrightarrow>
          drawWidth (draw_frame g w h) = 1920 \<and> drawX (draw_frame g w h) = 0
          \<and> drawHeight (draw_frame g w h) < 1080
          \<and> drawY (draw_frame g w h) = (1080 - drawHeight (draw_frame g w h)) / 2
          \<and> drawY (draw_frame g w h) + drawHeight (draw_frame g w h) / 2 = 1080 / 2)
    \<and> (\<not> real w / real h > 1920 / 1080 \<longrightarrow>
          drawHeight (draw_frame g w h) = 1080 \<and> drawY (draw_frame g w h) = 0
          \<and> drawWidth (draw_frame g w h) \<le> 1920
          \<and> drawX (draw_frame g w h) = (1920 - drawWidth (draw_frame g w h)) / 2
          \<and> drawX (draw_frame g w h) + drawWidth (draw_frame g w h) / 2 = 1920 / 2)
    \<and> frame_source (draw_frame g w h) = g
    \<and> (render_frames fs = Some frames \<longrightarrow>
          length frames = length fs
          \<and> (\<forall>i<length fs. \<exists>w' h'. decoded (fs ! i) = Some (w', h')
                \<and> frames ! i = draw_frame (fs ! i) w' h'))
    \<and> (createVideoClip now st = Created a \<longrightarrow>
          (\<exists>w' h'. decoded (selectedImages st ! 0) = Some (w', h')
             \<and> url a = DataUrl (draw_frame (selectedImages st ! 0) w' h')
             \<and> thumbnail a = url a))"
proof -
  from assms have pos: "0 < real w" "0 < real h" by simp_all
  then have r: "0 < real w / real h" by simp
  have wide: "1920 / (real w / real h) < 1080" if "real w / real h > 1920 / 1080"
  proof -
    from that pos have "1920 * real h < 1080 * real w"
      by (simp add: field_simps)
    with pos show ?thesis
      by (simp add: field_simps)
  qed
  have narrow: "1080 * (real w / real h) \<le> 1920" if "\<not> real w / real h > 1920 / 1080"
    using that by simp
  have placement:
    "render_frames [f\<lparr>decoded := Some (w, h)\<rparr>]
      = Some [draw_frame (f\<lparr>decoded := Some (w, h)\<rparr>) w h]
    \<and> drawWidth (draw_frame g w h) / drawHeight (draw_frame g w h) = real w / real h
    \<and> 0 < drawWidth (draw_frame g w h) \<and> 0 < drawHeight (draw_frame g w h)
    \<and> (real w / real h > 1920 / 1080 \<longrightarrow>
          drawWidth (draw_frame g w h) = 1920 \<and> drawX (draw_frame g w h) = 0
          \<and> drawHeight (draw_frame g w h) < 1080
          \<and> drawY (draw_frame g w h) = (1080 - drawHeight (draw_frame g w h)) / 2
          \<and> drawY (draw_frame g w h) + drawHeight (draw_frame g w h) / 2 = 1080 / 2)
    \<and> (\<not> real w / real h > 1920 / 1080 \<longrightarrow>
          drawHeight (draw_frame g w h) = 1080 \<and> drawY (draw_frame g w h) = 0
          \<and> drawWidth (draw_frame g w h) \<le> 1920
          \<and> drawX (draw_frame g w h) = (1920 - drawWidth (draw_frame g w h)) / 2
          \<and> drawX (draw_frame g w h) + drawWidth (draw_frame g w h) / 2 = 1920 / 2)
    \<and> frame_source (draw_frame g w h) = g"
    using pos r wide narrow
    by (auto simp: draw_frame_def Let_def canvas_width_px_def canvas_height_px_def
        diff_divide_distrib)
  have loop: "render_frames fs = Some frames \<longrightarrow>
          length frames = length fs
          \<and> (\<forall>i<length fs. \<exists>w' h'. decoded (fs ! i) = Some (w', h')
                \<and> frames ! i = draw_frame (fs ! i) w' h')"
    using render_frames_nth [of fs frames] by blast
  have clip: "createVideoClip now st = Created a \<longrightarrow>
          (\<exists>w' h'. decoded (selectedImages st ! 0) = Some (w', h')
             \<and> url a = DataUrl (draw_frame (selectedImages st ! 0) w' h')
             \<and> thumbnail a = url a)"
    using createVideoClip_url [of now st a] by blast
  from placement loop clip show ?thesis
    by blast
qed

theorem letterbox_fit_witness:
  "(0::nat) < 4000 \<and> (0::nat) < 1000
   \<and> real 4000 / real 1000 > 1920 / 1080
   \<and> draw_frame wide_photo 4000 1000 =
       \<lparr>frame_source = wide_photo, drawX = 0, drawY = 300, drawWidth = 1920, drawHeight = 480\<rparr>
   \<and> \<not> real 100 / real 100 > 1920 / 1080
   \<and> draw_frame sample_photo 100 100 =
       \<lparr>frame_source = sample_photo, drawX = 420, drawY = 0, drawWidth = 1080,
        drawHeight = 1080\<rparr>
   \<and> render_frames (selectedImages three_slides) =
       Some [draw_frame sample_photo 100 100, draw_frame wide_photo 4000 1000,
             draw_frame sample_photo 100 100]
   \<and> (\<exists>a. createVideoClip 1 three_slides = Created a
         \<and> url a = DataUrl (draw_frame sample_photo 100 100))"
proof -
  have fs: "render_frames (selectedImages three_slides) =
       Some [draw_frame sample_photo 100 100, draw_frame wide_photo 4000 1000,
             draw_frame sample_photo 100 100]"
    by (simp add: three_slides_simps sample_decoded)
  obtain a where a: "createVideoClip 1 three_slides = Created a"
    by (simp add: createVideoClip_def three_slides_simps sample_decoded)
  from letterbox_fit [where w = 100 and h = 100 and now = 1 and st = three_slides and a = a] a
  have "url a = DataUrl (draw_frame sample_photo 100 100)"
    by (simp add: three_slides_simps sample_decoded)
  with a have clip: "\<exists>a. createVideoClip 1 three_slides = Created a
         \<and> url a = DataUrl (draw_frame sample_photo 100 100)"
    by blast
  from letterbox_fit [where w = 4000 and h = 1000 and g = wide_photo]
    letterbox_fit [where w = 100 and h = 100 and g = sample_photo]
  have "draw_frame wide_photo 4000 1000 =
       \<lparr>frame_source = wide_photo, drawX = 0, drawY = 300, drawWidth = 1920, drawHeight = 480\<rparr>"
    and "draw_frame sample_photo 100 100 =
       \<lparr>frame_source = sample_photo, drawX = 420, drawY = 0, drawWidth = 1080,
        drawHeight = 1080\<rparr>"
    by (simp_all add: draw_frame_def Let_def canvas_width_px_def canvas_height_px_def)
  with fs clip show ?thesis
    by simp
qed

subsection \<open>The neutral edit\<close>

text \<open>
  With every adjustment at 100, no rotation, the filter \<open>none\<close> and no caption, the canvas
  has the size of the image and receives one drawing operation: the image at the origin,
  under a transformation that sends every point to itself and under the filter list
  \<open>brightness(100%) contrast(100%) saturate(100%)\<close>. The three functions are still
  applied. Whether their outcome equals the input pixel for pixel is decided by the
  browser's arithmetic on colours and by its storage of the bitmap, which lie outside this
  model.
\<close>

lemma neutral_edit_program:
  assumes "selectedImage st = Some img" and "decoded img = Some (w, h)"
    and "brightness st = 100" and "contrast st = 100" and "saturation st = 100"
    and "rotation st = 0" and "selectedFilter st = ''none''" and "textOverlay st = []"
  shows "\<exists>cv si. applyImageEdits st = Some cv
    \<and> canvas_width cv = w \<and> canvas_height cv = h
    \<and> drawn cv = [DrawImage img 0 0 si]
    \<and> apply_ctm (ctm si) p = p
    \<and> ctx_filter si = [Brightness 100, Contrast 100, Saturate 100]"
  using assms(3-7)
  by (cases p)
    (simp add: applyImageEdits_plain [OF assms(1,2,8)] apply_ctm_def image_filter_def
      catalog_filter_def)

end
